theory Spec2Isabelle
  imports Complex_Main
begin

section \<open>Python values, exceptions and string helpers\<close>

text \<open>
  The numbers handed back by the compiled distance engine and by the transmission model are
  Python ints or floats; a cell of a result column is either such a number or, after the
  overwrite at \<^verbatim>\<open>src/tracs/distance.py:204\<close>, a string. Floats are modelled by the
  real they denote (NaN and the infinities are not represented).
\<close>

datatype pynum = PInt int | PFloat real

datatype pyval = Num pynum | Str string

text \<open>
  The exceptions that can end a call. \<open>InvalidThreshold\<close> and \<open>InvalidRate\<close> are the
  specification's names for the failures of the argument checkers.
\<close>

datatype error =
    ArgumentError string
  | FileNotFoundError string
  | StopIteration
  | IndexError
  | ValueError
  | KeyError string
  | ExtensionError string
  | InvalidThreshold
  | InvalidRate

text \<open>Decimal rendering of Python's \<^verbatim>\<open>str\<close> on an int.\<close>

definition digit_char :: "nat \<Rightarrow> char" where
  "digit_char d = ''0123456789'' ! d"

fun str_nat :: "nat \<Rightarrow> string" where
  "str_nat n = (if n < 10 then [digit_char n] else str_nat (n div 10) @ [digit_char (n mod 10)])"

declare str_nat.simps [simp del]

definition str_int :: "int \<Rightarrow> string" where
  "str_int i = (if i < 0 then CHR ''-'' # str_nat (nat (- i)) else str_nat (nat i))"

text \<open>\<^verbatim>\<open>int(x)\<close> on a number truncates towards zero.\<close>

fun py_int :: "pynum \<Rightarrow> int" where
  "py_int (PInt i) = i"
| "py_int (PFloat r) = (if 0 \<le> r then \<lfloor>r\<rfloor> else \<lceil>r\<rceil>)"

text \<open>
  \<^verbatim>\<open>str(x)\<close>. The shortest round-trip rendering of a float is not modelled: it is the
  parameter \<open>float_repr\<close>.
\<close>

fun str_num :: "(real \<Rightarrow> string) \<Rightarrow> pynum \<Rightarrow> string" where
  "str_num float_repr (PInt i) = str_int i"
| "str_num float_repr (PFloat r) = float_repr r"

fun py_str :: "(real \<Rightarrow> string) \<Rightarrow> pyval \<Rightarrow> string" where
  "py_str float_repr (Num n) = str_num float_repr n"
| "py_str float_repr (Str s) = s"

text \<open>\<^verbatim>\<open>k >= x\<close> for an int \<open>k\<close> and a number \<open>x\<close>: Python compares exactly.\<close>

fun int_ge_num :: "int \<Rightarrow> pynum \<Rightarrow> bool" where
  "int_ge_num k (PInt i) = (i \<le> k)"
| "int_ge_num k (PFloat r) = (r \<le> of_int k)"

text \<open>\<^verbatim>\<open>sep.join(xs)\<close>\<close>

fun py_join :: "string \<Rightarrow> string list \<Rightarrow> string" where
  "py_join sep [] = []"
| "py_join sep [x] = x"
| "py_join sep (x # y # ys) = x @ sep @ py_join sep (y # ys)"

text \<open>\<^verbatim>\<open>s.split(c)\<close> for a one-character separator: never empty.\<close>

fun py_split :: "char \<Rightarrow> string \<Rightarrow> string list" where
  "py_split sep [] = [[]]"
| "py_split sep (c # cs) =
     (if c = sep then [] # py_split sep cs
      else (case py_split sep cs of
              [] \<Rightarrow> [[c]]
            | w # ws \<Rightarrow> (c # w) # ws))"

text \<open>
  \<^verbatim>\<open>s.strip()\<close>: white space is removed at both ends. A character of the model is a code
  point below 256; among those, \<^verbatim>\<open>str.isspace\<close> holds of U+0009 to U+000D, U+001C to
  U+001F, the space, U+0085 and U+00A0.
\<close>

definition is_space :: "char \<Rightarrow> bool" where
  "is_space c = (c \<in> set [CHR '' '', CHR 0x09, CHR 0x0A, CHR 0x0B, CHR 0x0C, CHR 0x0D,
                            CHR 0x1C, CHR 0x1D, CHR 0x1E, CHR 0x1F, CHR 0x85, CHR 0xA0])"

definition py_strip :: "string \<Rightarrow> string" where
  "py_strip s = rev (dropWhile is_space (rev (dropWhile is_space s)))"

text \<open>\<^verbatim>\<open>os.path.basename(p)\<close> (posix): what follows the last slash.\<close>

definition basename :: "string \<Rightarrow> string" where
  "basename p = rev (takeWhile (\<lambda>c. c \<noteq> CHR ''/'') (rev p))"

text \<open>
  \<^verbatim>\<open>s.replace(old, new)\<close>: scanning from the left, each occurrence of \<open>old\<close> found is
  replaced and the scan resumes behind it (occurrences do not overlap, and the text produced
  is not scanned again). An empty \<open>old\<close> matches before every character and at the end.
\<close>

function py_replace :: "string \<Rightarrow> string \<Rightarrow> string \<Rightarrow> string" where
  "py_replace old new [] = (if old = [] then new else [])"
| "py_replace old new (c # cs) =
     (if old = [] then new @ c # py_replace old new cs
      else if take (length old) (c # cs) = old
           then new @ py_replace old new (drop (length old) (c # cs))
           else c # py_replace old new cs)"
  by pat_completeness auto
termination
  by (relation "measure (\<lambda>(old, new, s). length s)") auto

text \<open>\<^verbatim>\<open>xs[i]\<close> for a non-negative index.\<close>

definition py_index :: "'a list \<Rightarrow> nat \<Rightarrow> error + 'a" where
  "py_index xs i = (if i < length xs then Inr (xs ! i) else Inl IndexError)"


section \<open>The distance command (\<^verbatim>\<open>src/tracs/distance.py\<close>)\<close>

text \<open>The parsed command line: one field per \<^verbatim>\<open>dest\<close> of \<^verbatim>\<open>distance_parser\<close>.\<close>

record args =
  msa_files :: "string list"
  msa_db :: "string option"
  metadata :: "string option"
  output_file :: string
  snp_threshold :: int
  recomb_filter :: bool
  clock_rate :: real
  trans_rate :: real
  trans_threshold :: "int option"
  precision :: real
  n_cpu :: int
  loglevel :: string

text \<open>
  What \<^verbatim>\<open>list(pairsnp(...))\<close> holds: the row and column indices of the pairs kept, their SNP
  distances, the sample names, the filtered distances and the numbers of sites compared
  (positions 0 to 5).
\<close>

record snp_dists =
  sd_I :: "nat list"
  sd_J :: "nat list"
  sd_dist :: "pynum list"
  sd_names :: "string list"
  sd_filt :: "pynum list"
  sd_ncomp :: "pynum list"

text \<open>
  The collaborators of \<^verbatim>\<open>distance\<close> whose code is compiled or lives in another module are
  parameters: the distance engine \<^verbatim>\<open>pairsnp\<close> (arguments \<^verbatim>\<open>fasta\<close>, \<^verbatim>\<open>n_threads\<close>,
  \<^verbatim>\<open>dist\<close>, \<^verbatim>\<open>filter\<close>), the transmission model \<^verbatim>\<open>calculate_trans_prob\<close> (the sparse
  distance triple, \<^verbatim>\<open>sample_dates\<close>, \<^verbatim>\<open>K\<close>, \<^verbatim>\<open>lamb\<close>, \<^verbatim>\<open>beta\<close>, \<^verbatim>\<open>samplenames\<close>,
  \<^verbatim>\<open>log\<close>, \<^verbatim>\<open>precision\<close>; it returns the transmission distances, the expected K and the
  date differences), \<^verbatim>\<open>date.fromisoformat\<close>, the rendering of floats and the file system
  (a path gives the lines of the file, each with its line end). Either function may raise.
\<close>

record 'd ext =
  pairsnp :: "string list \<Rightarrow> int \<Rightarrow> int \<Rightarrow> bool \<Rightarrow> error + snp_dists"
  calculate_trans_prob ::
    "nat list \<times> nat list \<times> pynum list \<Rightarrow> (string \<rightharpoonup> string \<times> 'd) \<Rightarrow> int \<Rightarrow> real \<Rightarrow> real \<Rightarrow>
     string list \<Rightarrow> bool \<Rightarrow> real \<Rightarrow> error + (pynum list \<times> pynum list \<times> pynum list)"
  fromisoformat :: "string \<Rightarrow> 'd option"
  float_repr :: "real \<Rightarrow> string"
  read_file :: "string \<Rightarrow> string list option"

text \<open>Lines 146 to 151: the metadata loop, one dictionary entry per line after the first.\<close>

fun load_lines ::
  "(string \<Rightarrow> 'd option) \<Rightarrow> string list \<Rightarrow> (string \<rightharpoonup> string \<times> 'd) \<Rightarrow> error + (string \<rightharpoonup> string \<times> 'd)"
where
  "load_lines fromiso [] dates = Inr dates"
| "load_lines fromiso (l # ls) dates =
     (let line = py_split (CHR '','') (py_strip l) in
      case py_index line 1 of
        Inl e \<Rightarrow> Inl e
      | Inr d \<Rightarrow>
          (case fromiso d of
             None \<Rightarrow> Inl ValueError
           | Some dt \<Rightarrow>
               (case py_index line 0 of
                  Inl e \<Rightarrow> Inl e
                | Inr k \<Rightarrow> load_lines fromiso ls (dates(k \<mapsto> (d, dt))))))"

text \<open>
  Lines 145 to 151. Without \<^verbatim>\<open>--meta\<close> the name \<^verbatim>\<open>dates\<close> stays unbound in the source and
  is never read; the model returns the empty dictionary there. \<^verbatim>\<open>next(infile)\<close> raises on
  an empty file.
\<close>

definition load_dates :: "'d ext \<Rightarrow> string option \<Rightarrow> error + (string \<rightharpoonup> string \<times> 'd)" where
  "load_dates x meta =
     (case meta of
        None \<Rightarrow> Inr Map.empty
      | Some p \<Rightarrow>
          (case read_file x p of
             None \<Rightarrow> Inl (FileNotFoundError p)
           | Some [] \<Rightarrow> Inl StopIteration
           | Some (h # ls) \<Rightarrow> load_lines (fromisoformat x) ls Map.empty))"

text \<open>Line 157.\<close>

definition header :: string where
  "header = ''sampleA,sampleB,date difference,SNP distance,transmission distance,expected K,filtered SNP distance,sites considered,MSA file'' @ [CHR 0x0A]"

text \<open>Lines 208 and 209.\<close>

definition msa_ref :: "string \<Rightarrow> string" where
  "msa_ref msa = py_replace ''_combined'' [] (hd (py_split (CHR ''.'') (basename msa)))"

text \<open>What one \<^verbatim>\<open>outfile.write\<close> of a record sends: the fields joined by commas, and a line end.\<close>

definition write_row :: "string list \<Rightarrow> string" where
  "write_row cols = py_join '','' cols @ [CHR 0x0A]"

text \<open>
  Lines 222 to 238, the body of the loop of the dated branch: the test on the threshold, then
  the fields in the order they are evaluated. \<open>None\<close> is a pair that is not written.
\<close>

definition dated_fields ::
  "(real \<Rightarrow> string) \<Rightarrow> int option \<Rightarrow> string list \<Rightarrow> string \<Rightarrow>
   nat \<times> nat \<times> pynum \<times> pynum \<times> pynum \<times> pynum \<times> pyval \<times> pynum \<Rightarrow> error + string list option"
where
  "dated_fields frepr K names ref r =
     (case r of (i, j, dateD, snpD, expK, tranD, filtD, ncomp) \<Rightarrow>
        if (case K of None \<Rightarrow> True | Some k \<Rightarrow> int_ge_num k expK)
        then (case py_index names i of
                Inl e \<Rightarrow> Inl e
              | Inr ni \<Rightarrow>
                  (case py_index names j of
                     Inl e \<Rightarrow> Inl e
                   | Inr nj \<Rightarrow>
                       Inr (Some [ni, nj, str_num frepr dateD, str_int (py_int snpD),
                                  str_num frepr tranD, str_num frepr expK, py_str frepr filtD,
                                  str_num frepr ncomp, ref])))
        else Inr None)"

text \<open>Lines 240 to 258, the body of the loop of the branch without dates.\<close>

definition undated_fields ::
  "(real \<Rightarrow> string) \<Rightarrow> string list \<Rightarrow> string \<Rightarrow> nat \<times> nat \<times> pynum \<times> pyval \<times> pynum \<Rightarrow>
   error + string list option"
where
  "undated_fields frepr names ref r =
     (case r of (i, j, snpD, filtD, ncomp) \<Rightarrow>
        (case py_index names i of
           Inl e \<Rightarrow> Inl e
         | Inr ni \<Rightarrow>
             (case py_index names j of
                Inl e \<Rightarrow> Inl e
              | Inr nj \<Rightarrow>
                  Inr (Some [ni, nj, ''NA'', str_int (py_int snpD), ''NA'', ''NA'',
                             py_str frepr filtD, str_num frepr ncomp, ref]))))"

text \<open>
  A \<^verbatim>\<open>for\<close> loop over zipped columns that writes to the open file. \<open>out\<close> is the list
  of the records written so far, each one the list of fields handed to \<^verbatim>\<open>join\<close>; the file
  holds the header and then \<open>write_row\<close> of each record. An exception ends the loop and
  leaves what was written.
\<close>

fun write_rows ::
  "('r \<Rightarrow> error + string list option) \<Rightarrow> 'r list \<Rightarrow> string list list \<Rightarrow> string list list \<times> error option"
where
  "write_rows f [] out = (out, None)"
| "write_rows f (r # rs) out =
     (case f r of
        Inl e \<Rightarrow> (out, Some e)
      | Inr None \<Rightarrow> write_rows f rs out
      | Inr (Some cols) \<Rightarrow> write_rows f rs (out @ [cols]))"

text \<open>Lines 163 to 166: the files handed to the engine.\<close>

definition msas :: "args \<Rightarrow> string \<Rightarrow> string list" where
  "msas a msa = (case msa_db a of Some db \<Rightarrow> [msa, db] | None \<Rightarrow> [msa])"

text \<open>Lines 160 to 258: the body of the loop over the alignments.\<close>

definition distance_msa ::
  "'d ext \<Rightarrow> args \<Rightarrow> (string \<rightharpoonup> string \<times> 'd) \<Rightarrow> string \<Rightarrow> string list list \<Rightarrow> string list list \<times> error option"
where
  "distance_msa x a dates msa out =
     (case pairsnp x (msas a msa) (n_cpu a) (snp_threshold a) (recomb_filter a) of
        Inl e \<Rightarrow> (out, Some e)
      | Inr sd \<Rightarrow>
          (let names = sd_names sd; ref = msa_ref msa in
           if metadata a \<noteq> None \<and> 0 < length (sd_I sd)
           then
             (case calculate_trans_prob x
                     (sd_I sd, sd_J sd, if recomb_filter a then sd_filt sd else sd_dist sd)
                     dates 100 (clock_rate a) (trans_rate a) names False (precision a) of
                Inl e \<Rightarrow> (out, Some e)
              | Inr (transmission_dists, expectedk, datediff) \<Rightarrow>
                  (let filt = (if recomb_filter a then map Num (sd_filt sd)
                               else replicate (length (sd_dist sd)) (Str ''NA''))
                   in write_rows (dated_fields (float_repr x) (trans_threshold a) names ref)
                        (zip (sd_I sd) (zip (sd_J sd) (zip datediff (zip (sd_dist sd)
                          (zip expectedk (zip transmission_dists (zip filt (sd_ncomp sd))))))))
                        out))
           else write_rows (undated_fields (float_repr x) names ref)
                  (zip (sd_I sd) (zip (sd_J sd) (zip (sd_dist sd)
                    (zip (map Num (sd_filt sd)) (sd_ncomp sd)))))
                  out))"

text \<open>Line 159: the alignments in the order given; an exception ends the run.\<close>

fun distance_loop ::
  "'d ext \<Rightarrow> args \<Rightarrow> (string \<rightharpoonup> string \<times> 'd) \<Rightarrow> string list \<Rightarrow> string list list \<Rightarrow> string list list \<times> error option"
where
  "distance_loop x a dates [] out = (out, None)"
| "distance_loop x a dates (msa # rest) out =
     (case distance_msa x a dates msa out of
        (out', Some e) \<Rightarrow> (out', Some e)
      | (out', None) \<Rightarrow> distance_loop x a dates rest out')"

text \<open>
  \<^verbatim>\<open>distance(args)\<close>. The result is what the output file holds when the call ends, as the
  list of the strings written (\<open>None\<close> when the file was never opened; the open itself is
  taken to succeed), and the exception that ended the call, if any. Logging is left out.
\<close>

record result =
  outfile :: "string list option"
  raised :: "error option"

definition distance :: "'d ext \<Rightarrow> args \<Rightarrow> result" where
  "distance x a =
     (case load_dates x (metadata a) of
        Inl e \<Rightarrow> \<lparr>outfile = None, raised = Some e\<rparr>
      | Inr dates \<Rightarrow>
          (case distance_loop x a dates (msa_files a) [] of
             (out, err) \<Rightarrow> \<lparr>outfile = Some (header # map write_row out), raised = err\<rparr>))"

section \<open>The command line (\<^verbatim>\<open>distance_parser\<close>)\<close>

text \<open>
  Modelled from the spec: \<^verbatim>\<open>check_positive_int\<close> of \<^verbatim>\<open>tracs/utils.py\<close>, a module that is
  not among the sources. \<^verbatim>\<open>distance_parser\<close> gives it as the \<^verbatim>\<open>type\<close> of \<^verbatim>\<open>-D\<close> (line 62),
  and of \<^verbatim>\<open>-K\<close> and \<^verbatim>\<open>--threads\<close>. Section 4.2 of the specification: the engine
  ``fails with \<open>InvalidThreshold\<close> if D < 0''. The model starts from the number the text typed
  denotes.
\<close>

definition check_positive_int :: "int \<Rightarrow> error + int" where
  "check_positive_int ivalue = (if ivalue < 0 then Inl InvalidThreshold else Inr ivalue)"

text \<open>
  Modelled from the spec: \<^verbatim>\<open>check_positive_float\<close> of the same absent module, the \<^verbatim>\<open>type\<close>
  of \<^verbatim>\<open>--clock_rate\<close> and \<^verbatim>\<open>--trans_rate\<close> (lines 80 and 88), and of \<^verbatim>\<open>--precision\<close>.
  Section 4.4 of the specification: the model ``fails with \<open>InvalidRate\<close> when
  \<open>\<lambda> \<le> 0\<close> or \<open>\<beta> \<le> 0\<close>''.
\<close>

definition check_positive_float :: "real \<Rightarrow> error + real" where
  "check_positive_float ivalue = (if ivalue \<le> 0 then Inl InvalidRate else Inr ivalue)"

text \<open>\<^verbatim>\<open>str.upper\<close> on ASCII text, the \<^verbatim>\<open>type\<close> of \<^verbatim>\<open>--loglevel\<close>.\<close>

definition upper_char :: "char \<Rightarrow> char" where
  "upper_char c =
     (case map_of (zip ''abcdefghijklmnopqrstuvwxyz'' ''ABCDEFGHIJKLMNOPQRSTUVWXYZ'') c of
        None \<Rightarrow> c
      | Some u \<Rightarrow> u)"

definition py_upper :: "string \<Rightarrow> string" where
  "py_upper s = map upper_char s"

text \<open>
  What the user typed, option by option, numbers already converted: \<open>None\<close> (or the empty
  list, or \<open>False\<close> for the flag) is an option that was not given.
\<close>

record cli =
  cli_msa :: "string list"
  cli_msa_db :: "string option"
  cli_meta :: "string option"
  cli_output :: "string option"
  cli_snp_threshold :: "int option"
  cli_filter :: bool
  cli_clock_rate :: "real option"
  cli_trans_rate :: "real option"
  cli_trans_threshold :: "int option"
  cli_precision :: "real option"
  cli_threads :: "int option"
  cli_loglevel :: "string option"

definition ebind :: "error + 'a \<Rightarrow> ('a \<Rightarrow> error + 'b) \<Rightarrow> error + 'b" where
  "ebind m f = (case m of Inl e \<Rightarrow> Inl e | Inr v \<Rightarrow> f v)"

text \<open>An option with a default: \<^verbatim>\<open>type\<close> is applied to what the user gave, not to the default.\<close>

definition opt_arg :: "('a \<Rightarrow> error + 'b) \<Rightarrow> 'b \<Rightarrow> 'a option \<Rightarrow> error + 'b" where
  "opt_arg ty dflt v = (case v of None \<Rightarrow> Inr dflt | Some s \<Rightarrow> ty s)"

definition loglevel_choices :: "string list" where
  "loglevel_choices = [''DEBUG'', ''INFO'', ''WARNING'', ''ERROR'', ''CRITICAL'']"

text \<open>
  \<^verbatim>\<open>parser.parse_args()\<close> for the parser built at lines 15 to 131. The two argument
  checkers, which the parser imports from the absent module, are the parameters \<open>chk_int\<close>
  and \<open>chk_float\<close>, and \<^verbatim>\<open>os.path.abspath\<close> is a parameter. The options are taken in the
  order of their declaration (argparse takes them in the order typed, which only changes which
  of several errors is reported), the required ones are checked last, as argparse does.
\<close>

definition parse_args ::
  "(int \<Rightarrow> error + int) \<Rightarrow> (real \<Rightarrow> error + real) \<Rightarrow> (string \<Rightarrow> string) \<Rightarrow> cli \<Rightarrow> error + args"
where
  "parse_args chk_int chk_float abspath c =
     ebind (opt_arg chk_int 2147483647 (cli_snp_threshold c)) (\<lambda>D.
     ebind (opt_arg chk_float (0.001 * 29903) (cli_clock_rate c)) (\<lambda>lamb.
     ebind (opt_arg chk_float 73 (cli_trans_rate c)) (\<lambda>beta.
     ebind (opt_arg (\<lambda>v. ebind (chk_int v) (\<lambda>k. Inr (Some k))) None
              (cli_trans_threshold c)) (\<lambda>K.
     ebind (opt_arg chk_float 0.01 (cli_precision c)) (\<lambda>eps.
     ebind (opt_arg chk_int 1 (cli_threads c)) (\<lambda>t.
     ebind (opt_arg (\<lambda>v. if py_upper v \<in> set loglevel_choices then Inr (py_upper v)
                           else Inl (ArgumentError ''--loglevel'')) ''INFO''
              (cli_loglevel c)) (\<lambda>lvl.
     ebind (if cli_msa c = [] then Inl (ArgumentError ''--msa'') else Inr (map abspath (cli_msa c)))
       (\<lambda>msa.
     ebind (case cli_output c of None \<Rightarrow> Inl (ArgumentError ''-o/--output'') | Some p \<Rightarrow> Inr p)
       (\<lambda>outp.
     Inr \<lparr>msa_files = msa, msa_db = map_option abspath (cli_msa_db c),
          metadata = map_option abspath (cli_meta c), output_file = outp,
          snp_threshold = D, recomb_filter = cli_filter c, clock_rate = lamb,
          trans_rate = beta, trans_threshold = K, precision = eps, n_cpu = t,
          loglevel = lvl\<rparr>)))))))))"

text \<open>A command line that gives the two required options and nothing else.\<close>

definition bare_cli :: "string list \<Rightarrow> string \<Rightarrow> cli" where
  "bare_cli msa outp =
     \<lparr>cli_msa = msa, cli_msa_db = None, cli_meta = None, cli_output = Some outp,
      cli_snp_threshold = None, cli_filter = False, cli_clock_rate = None,
      cli_trans_rate = None, cli_trans_threshold = None, cli_precision = None,
      cli_threads = None, cli_loglevel = None\<rparr>"







section \<open>Well-formed engine output and a small run\<close>

text \<open>
  What the loops at lines 212 and 240 expect of the engine: one entry per pair in every
  column, and indices that name a sample.
\<close>

definition pair_columns :: "snp_dists \<Rightarrow> bool" where
  "pair_columns sd \<longleftrightarrow>
     length (sd_J sd) = length (sd_I sd) \<and> length (sd_dist sd) = length (sd_I sd) \<and>
     length (sd_filt sd) = length (sd_I sd) \<and> length (sd_ncomp sd) = length (sd_I sd) \<and>
     list_all (\<lambda>i. i < length (sd_names sd)) (sd_I sd) \<and>
     list_all (\<lambda>j. j < length (sd_names sd)) (sd_J sd)"

text \<open>
  A run used to evaluate the program: alignments of two samples \<open>s1\<close> and \<open>s2\<close> that differ
  at two sites of ten, both inside a window the filter removes; the engine refuses the file
  \<open>/d/bad.fasta\<close>. The stand-in for the transmission model answers, for a distance \<open>d\<close>,
  the transmission distance \<open>d div 2\<close> and the expected K \<open>3 d / 4\<close>, thirty days apart.
\<close>

definition ex_pairsnp :: "string list \<Rightarrow> int \<Rightarrow> int \<Rightarrow> bool \<Rightarrow> error + snp_dists" where
  "ex_pairsnp fasta n_threads D filt =
     (if ''/d/bad.fasta'' \<in> set fasta then Inl (ExtensionError ''sequences differ in length'')
      else if D < 2
      then Inr \<lparr>sd_I = [], sd_J = [], sd_dist = [], sd_names = [''s1'', ''s2''], sd_filt = [],
                sd_ncomp = []\<rparr>
      else Inr \<lparr>sd_I = [0], sd_J = [1], sd_dist = [PInt 2], sd_names = [''s1'', ''s2''],
                sd_filt = [if filt then PInt 0 else PInt 2],
                sd_ncomp = [if filt then PInt 8 else PInt 10]\<rparr>)"

definition ex_trans_prob ::
  "nat list \<times> nat list \<times> pynum list \<Rightarrow> (string \<rightharpoonup> string \<times> string) \<Rightarrow> int \<Rightarrow> real \<Rightarrow> real \<Rightarrow>
   string list \<Rightarrow> bool \<Rightarrow> real \<Rightarrow> error + (pynum list \<times> pynum list \<times> pynum list)"
where
  "ex_trans_prob sparse dates K lamb beta names lg eps =
     (case sparse of (I, J, d) \<Rightarrow>
        Inr (map (\<lambda>v. PInt (py_int v div 2)) d,
             map (\<lambda>v. PFloat (3 * of_int (py_int v) / 4)) d,
             map (\<lambda>v. PInt 30) d))"

definition ex_float_repr :: "real \<Rightarrow> string" where
  "ex_float_repr r = (if r = 3 / 2 then ''1.5'' else if r = 0 then ''0.0'' else ''?'')"

definition ex_ext :: "string ext" where
  "ex_ext =
     \<lparr>pairsnp = ex_pairsnp, calculate_trans_prob = ex_trans_prob, fromisoformat = Some,
      float_repr = ex_float_repr,
      read_file = (\<lambda>p. if p = ''/d/meta.csv''
                         then Some [''id,date'' @ [CHR 0x0A], ''s1,2020-01-01'' @ [CHR 0x0A],
                                    ''s2,2020-01-31'' @ [CHR 0x0A]]
                         else None)\<rparr>"

definition ex_args :: args where
  "ex_args =
     \<lparr>msa_files = [''/d/ref_combined.fasta''], msa_db = None, metadata = Some ''/d/meta.csv'',
      output_file = ''out.csv'', snp_threshold = 2147483647, recomb_filter = False,
      clock_rate = 0.001 * 29903, trans_rate = 73, trans_threshold = None,
      precision = 0.01, n_cpu = 1, loglevel = ''INFO''\<rparr>"

definition ex_dates :: "string \<rightharpoonup> string \<times> string" where
  "ex_dates = [''s1'' \<mapsto> (''2020-01-01'', ''2020-01-01''), ''s2'' \<mapsto> (''2020-01-31'', ''2020-01-31'')]"




section \<open>The distance engine as the specification describes it\<close>

text \<open>
  Modelled from the spec: the compiled engine \<^verbatim>\<open>pairsnp\<close> of the extension module
  \<^verbatim>\<open>TRACS\<close>, which is not among the sources, for one alignment and with the recombination
  filter disabled. An alignment is a list of records (sample identifier, symbol sequence) of
  one length L. Section 3: the raw distance ``counts positions where both sequences have a
  resolved (non-ambiguous, non-gap) symbol and the symbols differ''. Section 4.3: ``when
  disabled, filtered distance equals raw distance and sites-considered equals L minus
  unresolved positions''. Section 4.2: a position is skipped ``where either symbol is
  ambiguous/gap'', and ``pairs whose raw distance exceeds D are omitted''. Section 5: the pairs
  come in lexicographic order over (i, j), i < j.
\<close>

text \<open>Modelled from the spec: the resolved symbols of section 3, \<open>A\<close>, \<open>C\<close>, \<open>G\<close> and \<open>T\<close>.\<close>

definition resolved :: "char \<Rightarrow> bool" where
  "resolved c \<longleftrightarrow> c \<in> set ''ACGT''"

text \<open>
  Modelled from the spec: the raw SNP distance of section 3, the number of positions where both
  symbols are resolved and differ.
\<close>

definition raw_distance :: "string \<Rightarrow> string \<Rightarrow> nat" where
  "raw_distance s t = length (filter (\<lambda>(a, b). resolved a \<and> resolved b \<and> a \<noteq> b) (zip s t))"

text \<open>
  Modelled from the spec: the unresolved positions of a pair (section 4.2), those where either
  symbol is ambiguous or a gap.
\<close>

definition unresolved_positions :: "string \<Rightarrow> string \<Rightarrow> nat" where
  "unresolved_positions s t = length (filter (\<lambda>(a, b). \<not> (resolved a \<and> resolved b)) (zip s t))"

text \<open>
  Modelled from the spec: the sites considered with the filter disabled (section 4.3), L minus
  the unresolved positions.
\<close>

definition sites_considered :: "string \<Rightarrow> string \<Rightarrow> nat" where
  "sites_considered s t = length s - unresolved_positions s t"

text \<open>
  Modelled from the spec: the pair enumeration of section 5, lexicographic over (i, j) with
  i < j.
\<close>

definition all_pairs :: "nat \<Rightarrow> (nat \<times> nat) list" where
  "all_pairs n = concat (map (\<lambda>i. map (\<lambda>j. (i, j)) [Suc i..<n]) [0..<n])"

text \<open>
  Modelled from the spec: what \<^verbatim>\<open>pairsnp\<close> returns for the alignment \<open>aln\<close> and the cutoff
  \<open>D\<close> with the filter disabled, in the six columns \<^verbatim>\<open>distance\<close> reads: the pairs within
  \<open>D\<close>, their raw distance, the sample names, the filtered distance (equal to the raw one)
  and the sites considered.
\<close>

definition spec_pairsnp :: "(string \<times> string) list \<Rightarrow> int \<Rightarrow> snp_dists" where
  "spec_pairsnp aln D =
     (let ps = filter (\<lambda>(i, j). int (raw_distance (snd (aln ! i)) (snd (aln ! j))) \<le> D)
                 (all_pairs (length aln))
      in \<lparr>sd_I = map fst ps, sd_J = map snd ps,
          sd_dist = map (\<lambda>(i, j). PInt (int (raw_distance (snd (aln ! i)) (snd (aln ! j))))) ps,
          sd_names = map fst aln,
          sd_filt = map (\<lambda>(i, j). PInt (int (raw_distance (snd (aln ! i)) (snd (aln ! j))))) ps,
          sd_ncomp = map (\<lambda>(i, j). PInt (int (sites_considered (snd (aln ! i)) (snd (aln ! j))))) ps\<rparr>)"

text \<open>
  The alignment of the example: two sequences of length ten that differ at positions 2 and 7
  and have no ambiguous symbol.
\<close>

definition ex_aln :: "(string \<times> string) list" where
  "ex_aln = [(''s1'', ''ACGTACGTAC''), (''s2'', ''ACTTACGAAC'')]"

section \<open>Properties of the write loops\<close>

lemma write_rows_total:
  "(\<And>r. r \<in> set rs \<Longrightarrow> f r = Inr (Some (g r))) \<Longrightarrow> write_rows f rs out = (out @ map g rs, None)"
  by (induction rs arbitrary: out) simp_all

lemma write_rows_new:
  "write_rows f rs out = (out', err) \<Longrightarrow>
     \<exists>new. out' = out @ new \<and> (\<forall>c \<in> set new. \<exists>r \<in> set rs. f r = Inr (Some c))"
proof (induction rs arbitrary: out)
  case Nil
  then show ?case by simp
next
  case (Cons r rs)
  show ?case
  proof (cases "f r")
    case (Inl e)
    with Cons.prems show ?thesis by simp
  next
    case (Inr v)
    show ?thesis
    proof (cases v)
      case None
      with Inr Cons.prems have "write_rows f rs out = (out', err)" by simp
      from Cons.IH [OF this] show ?thesis by auto
    next
      case (Some c)
      with Inr Cons.prems have "write_rows f rs (out @ [c]) = (out', err)" by simp
      from Cons.IH [OF this] obtain new where
        n: "out' = (out @ [c]) @ new" "\<forall>c \<in> set new. \<exists>r \<in> set rs. f r = Inr (Some c)" by blast
      have "out' = out @ (c # new)" using n(1) by simp
      moreover have "\<forall>d \<in> set (c # new). \<exists>r' \<in> set (r # rs). f r' = Inr (Some d)"
        using n(2) Inr Some by auto
      ultimately show ?thesis by blast
    qed
  qed
qed

lemma zip5_nth:
  "length js = length is \<Longrightarrow> length ds = length is \<Longrightarrow> length fs = length is \<Longrightarrow>
   length cs = length is \<Longrightarrow>
   map g (zip is (zip js (zip ds (zip fs cs)))) =
   map (\<lambda>k. g (is ! k, js ! k, ds ! k, fs ! k, cs ! k)) [0..<length is]"
  by (rule nth_equalityI) simp_all

lemma ex_ext_sel:
  "pairsnp ex_ext = ex_pairsnp" "calculate_trans_prob ex_ext = ex_trans_prob"
  "float_repr ex_ext = ex_float_repr" "fromisoformat ex_ext = Some"
  by (simp_all add: ex_ext_def)

lemma ex_load_dates: "load_dates ex_ext (Some ''/d/meta.csv'') = Inr ex_dates"
  by (simp add: load_dates_def ex_ext_def ex_dates_def py_strip_def is_space_def py_index_def)

lemma undated_fields_ok:
  "i < length names \<Longrightarrow> j < length names \<Longrightarrow>
   undated_fields frepr names ref (i, j, snpD, filtD, ncomp) =
     Inr (Some [names ! i, names ! j, ''NA'', str_int (py_int snpD), ''NA'', ''NA'',
                py_str frepr filtD, str_num frepr ncomp, ref])"
  by (simp add: undated_fields_def py_index_def)


lemma write_rows_filter:
  "(\<And>r. r \<in> set rs \<Longrightarrow> f r = Inr (if p r then Some (g r) else None)) \<Longrightarrow>
   write_rows f rs out = (out @ map g (filter p rs), None)"
  by (induction rs arbitrary: out) simp_all

lemma zip8_nth:
  "length bs = length as \<Longrightarrow> length cs = length as \<Longrightarrow> length ds = length as \<Longrightarrow>
   length es = length as \<Longrightarrow> length fs = length as \<Longrightarrow> length gs = length as \<Longrightarrow>
   length hs = length as \<Longrightarrow>
   zip as (zip bs (zip cs (zip ds (zip es (zip fs (zip gs hs)))))) =
   map (\<lambda>k. (as ! k, bs ! k, cs ! k, ds ! k, es ! k, fs ! k, gs ! k, hs ! k)) [0..<length as]"
  by (rule nth_equalityI) simp_all

lemma dated_fields_ok:
  "i < length names \<Longrightarrow> j < length names \<Longrightarrow>
   dated_fields frepr K names ref (i, j, dateD, snpD, expK, tranD, filtD, ncomp) =
     Inr (if (case K of None \<Rightarrow> True | Some k \<Rightarrow> int_ge_num k expK)
          then Some [names ! i, names ! j, str_num frepr dateD, str_int (py_int snpD),
                     str_num frepr tranD, str_num frepr expK, py_str frepr filtD,
                     str_num frepr ncomp, ref]
          else None)"
  by (simp add: dated_fields_def py_index_def)

lemma dated_write:
  assumes cols: "pair_columns sd"
    and lens: "length dd = length (sd_I sd)" "length ek = length (sd_I sd)"
      "length t = length (sd_I sd)" "length filt = length (sd_I sd)"
  shows "write_rows (dated_fields frepr K (sd_names sd) ref)
           (zip (sd_I sd) (zip (sd_J sd) (zip dd (zip (sd_dist sd)
              (zip ek (zip t (zip filt (sd_ncomp sd)))))))) out =
         (out @ map (\<lambda>k. [sd_names sd ! (sd_I sd ! k), sd_names sd ! (sd_J sd ! k),
                            str_num frepr (dd ! k), str_int (py_int (sd_dist sd ! k)),
                            str_num frepr (t ! k), str_num frepr (ek ! k), py_str frepr (filt ! k),
                            str_num frepr (sd_ncomp sd ! k), ref])
                 (filter (\<lambda>k. case K of None \<Rightarrow> True | Some k' \<Rightarrow> int_ge_num k' (ek ! k))
                    [0..<length (sd_I sd)]),
          None)"
proof -
  let ?n = "length (sd_I sd)"
  let ?row = "\<lambda>k. (sd_I sd ! k, sd_J sd ! k, dd ! k, sd_dist sd ! k, ek ! k, t ! k, filt ! k,
                     sd_ncomp sd ! k)"
  let ?p = "\<lambda>(i, j, dateD, snpD, expK, tranD, filtD, ncomp).
              (case K of None \<Rightarrow> True | Some k' \<Rightarrow> int_ge_num k' expK)"
  let ?g = "\<lambda>(i, j, dateD, snpD, expK, tranD, filtD, ncomp).
              [sd_names sd ! i, sd_names sd ! j, str_num frepr dateD, str_int (py_int snpD),
               str_num frepr tranD, str_num frepr expK, py_str frepr filtD,
               str_num frepr ncomp, ref]"
  have len: "length (sd_J sd) = ?n" "length (sd_dist sd) = ?n" "length (sd_ncomp sd) = ?n"
    using cols by (simp_all add: pair_columns_def)
  have rows: "zip (sd_I sd) (zip (sd_J sd) (zip dd (zip (sd_dist sd)
                (zip ek (zip t (zip filt (sd_ncomp sd))))))) = map ?row [0..<?n]"
    using len lens by (intro zip8_nth) simp_all
  have ok: "dated_fields frepr K (sd_names sd) ref r = Inr (if ?p r then Some (?g r) else None)"
    if "r \<in> set (map ?row [0..<?n])" for r
  proof -
    from that obtain k where k: "k < ?n" "r = ?row k" by auto
    have "sd_I sd ! k < length (sd_names sd)" "sd_J sd ! k < length (sd_names sd)"
      using cols k(1) len by (simp_all add: pair_columns_def list_all_length)
    then show ?thesis unfolding k(2) by (simp add: dated_fields_ok)
  qed
  have "write_rows (dated_fields frepr K (sd_names sd) ref) (map ?row [0..<?n]) out =
          (out @ map ?g (filter ?p (map ?row [0..<?n])), None)"
    using ok by (rule write_rows_filter)
  then show ?thesis
    unfolding rows by (simp add: filter_map comp_def)
qed

lemma ex_str: "str_int 2 = ''2''" "str_int 10 = ''10''" "str_int 30 = ''30''" "str_int 1 = ''1''"
  "str_int 0 = ''0''" "str_int 8 = ''8''"
  by (simp_all add: str_int_def str_nat.simps digit_char_def)

lemma ex_ref: "msa_ref ''/d/ref_combined.fasta'' = ''ref''"
  by (simp add: msa_ref_def basename_def)

lemma in_zip8:
  "(a, b, c, d, e, f, g, h) \<in> set (zip as (zip bs (zip cs (zip ds (zip es (zip fs (zip gs hs))))))) \<Longrightarrow>
   \<exists>k. k < length as \<and> k < length bs \<and> k < length cs \<and> k < length ds \<and> k < length es \<and>
       k < length fs \<and> k < length gs \<and> k < length hs \<and>
       a = as ! k \<and> b = bs ! k \<and> c = cs ! k \<and> d = ds ! k \<and> e = es ! k \<and> f = fs ! k \<and>
       g = gs ! k \<and> h = hs ! k"
  by (fastforce simp: in_set_zip)

lemma in_zip5:
  "(a, b, c, d, e) \<in> set (zip as (zip bs (zip cs (zip ds es)))) \<Longrightarrow>
   \<exists>k. k < length as \<and> k < length bs \<and> k < length cs \<and> k < length ds \<and> k < length es \<and>
       a = as ! k \<and> b = bs ! k \<and> c = cs ! k \<and> d = ds ! k \<and> e = es ! k"
  by (fastforce simp: in_set_zip)

lemma dated_fields_Some:
  "dated_fields frepr K names ref (i, j, dateD, snpD, expK, tranD, filtD, ncomp) = Inr (Some c) \<Longrightarrow>
   (case K of None \<Rightarrow> True | Some k \<Rightarrow> int_ge_num k expK) \<and>
   i < length names \<and> j < length names \<and>
   c = [names ! i, names ! j, str_num frepr dateD, str_int (py_int snpD), str_num frepr tranD,
        str_num frepr expK, py_str frepr filtD, str_num frepr ncomp, ref]"
  by (auto simp: dated_fields_def py_index_def split: if_splits)

lemma undated_fields_Some:
  "undated_fields frepr names ref (i, j, snpD, filtD, ncomp) = Inr (Some c) \<Longrightarrow>
   i < length names \<and> j < length names \<and>
   c = [names ! i, names ! j, ''NA'', str_int (py_int snpD), ''NA'', ''NA'',
        py_str frepr filtD, str_num frepr ncomp, ref]"
  by (auto simp: undated_fields_def py_index_def split: if_splits)

lemma undated_write:
  assumes cols: "pair_columns sd"
  shows "write_rows (undated_fields frepr (sd_names sd) ref)
           (zip (sd_I sd) (zip (sd_J sd) (zip (sd_dist sd)
              (zip (map Num (sd_filt sd)) (sd_ncomp sd))))) out =
         (out @ map (\<lambda>k. [sd_names sd ! (sd_I sd ! k), sd_names sd ! (sd_J sd ! k), ''NA'',
                            str_int (py_int (sd_dist sd ! k)), ''NA'', ''NA'',
                            str_num frepr (sd_filt sd ! k), str_num frepr (sd_ncomp sd ! k), ref])
                 [0..<length (sd_I sd)],
          None)"
proof -
  let ?g = "\<lambda>(i, j, snpD, filtD, ncomp).
      [sd_names sd ! i, sd_names sd ! j, ''NA'', str_int (py_int snpD), ''NA'', ''NA'',
       py_str frepr filtD, str_num frepr ncomp, ref]"
  let ?rs = "zip (sd_I sd) (zip (sd_J sd) (zip (sd_dist sd) (zip (map Num (sd_filt sd)) (sd_ncomp sd))))"
  have len: "length (sd_J sd) = length (sd_I sd)" "length (sd_dist sd) = length (sd_I sd)"
    "length (map Num (sd_filt sd)) = length (sd_I sd)" "length (sd_ncomp sd) = length (sd_I sd)"
    using cols by (simp_all add: pair_columns_def)
  have ok: "undated_fields frepr (sd_names sd) ref r = Inr (Some (?g r))"
    if "r \<in> set ?rs" for r
  proof -
    obtain i j snpD filtD ncomp where r: "r = (i, j, snpD, filtD, ncomp)"
      by (cases r) auto
    from that r have mem: "(i, j, snpD, filtD, ncomp) \<in> set ?rs" by simp
    then have "i \<in> set (sd_I sd)" by (rule set_zip_leftD)
    moreover from mem have "(j, snpD, filtD, ncomp) \<in>
        set (zip (sd_J sd) (zip (sd_dist sd) (zip (map Num (sd_filt sd)) (sd_ncomp sd))))"
      by (rule set_zip_rightD)
    then have "j \<in> set (sd_J sd)" by (rule set_zip_leftD)
    ultimately have "i < length (sd_names sd)" "j < length (sd_names sd)"
      using cols by (simp_all add: pair_columns_def list_all_iff)
    then show ?thesis unfolding r by (simp add: undated_fields_ok)
  qed
  have "write_rows (undated_fields frepr (sd_names sd) ref) ?rs out = (out @ map ?g ?rs, None)"
    using ok by (rule write_rows_total)
  also have "map ?g ?rs = map (\<lambda>k. ?g (sd_I sd ! k, sd_J sd ! k, sd_dist sd ! k,
                                        map Num (sd_filt sd) ! k, sd_ncomp sd ! k)) [0..<length (sd_I sd)]"
    using len by (rule zip5_nth)
  also have "\<dots> = map (\<lambda>k. [sd_names sd ! (sd_I sd ! k), sd_names sd ! (sd_J sd ! k), ''NA'',
                       str_int (py_int (sd_dist sd ! k)), ''NA'', ''NA'',
                       str_num frepr (sd_filt sd ! k),
                       str_num frepr (sd_ncomp sd ! k), ref])
                [0..<length (sd_I sd)]"
    using len by simp
  finally show ?thesis .
qed

lemma distance_msa_new:
  assumes run: "distance_msa x a dates msa out = (out', err)"
  shows "\<exists>new. out' = out @ new \<and>
     (\<forall>c \<in> set new. \<exists>sd k.
         pairsnp x (msas a msa) (n_cpu a) (snp_threshold a) (recomb_filter a) = Inr sd \<and>
         k < length (sd_I sd) \<and> k < length (sd_J sd) \<and> k < length (sd_dist sd) \<and>
         k < length (sd_ncomp sd) \<and> length c = 9 \<and>
         c ! 0 = sd_names sd ! (sd_I sd ! k) \<and> c ! 1 = sd_names sd ! (sd_J sd ! k) \<and>
         c ! 3 = str_int (py_int (sd_dist sd ! k)) \<and>
         c ! 7 = str_num (float_repr x) (sd_ncomp sd ! k) \<and> c ! 8 = msa_ref msa \<and>
         (if metadata a \<noteq> None \<and> sd_I sd \<noteq> []
          then c ! 6 = (if recomb_filter a then str_num (float_repr x) (sd_filt sd ! k) else ''NA'') \<and>
               (recomb_filter a \<longrightarrow> k < length (sd_filt sd))
          else c ! 2 = ''NA'' \<and> c ! 4 = ''NA'' \<and> c ! 5 = ''NA'' \<and> k < length (sd_filt sd) \<and>
               c ! 6 = str_num (float_repr x) (sd_filt sd ! k)))"
proof (cases "pairsnp x (msas a msa) (n_cpu a) (snp_threshold a) (recomb_filter a)")
  case (Inl e)
  with run have "out' = out" by (simp add: distance_msa_def)
  then show ?thesis by simp
next
  case (Inr sd)
  show ?thesis
  proof (cases "metadata a \<noteq> None \<and> sd_I sd \<noteq> []")
    case dated: True
    show ?thesis
    proof (cases "calculate_trans_prob x
                (sd_I sd, sd_J sd, if recomb_filter a then sd_filt sd else sd_dist sd)
                dates 100 (clock_rate a) (trans_rate a) (sd_names sd) False (precision a)")
      case (Inl e)
      with run Inr dated have "out' = out" by (simp add: distance_msa_def)
      then show ?thesis by simp
    next
      case est: (Inr res)
      obtain t ek dd where res: "res = (t, ek, dd)" by (cases res) auto
      let ?filt = "if recomb_filter a then map Num (sd_filt sd)
                   else replicate (length (sd_dist sd)) (Str ''NA'')"
      let ?rs = "zip (sd_I sd) (zip (sd_J sd) (zip dd (zip (sd_dist sd)
                   (zip ek (zip t (zip ?filt (sd_ncomp sd)))))))"
      let ?f = "dated_fields (float_repr x) (trans_threshold a) (sd_names sd) (msa_ref msa)"
      from run Inr dated est res have "write_rows ?f ?rs out = (out', err)"
        by (simp add: distance_msa_def)
      from write_rows_new [OF this] obtain new where
        new: "out' = out @ new" "\<forall>c \<in> set new. \<exists>r \<in> set ?rs. ?f r = Inr (Some c)" by blast
      have "\<exists>k. k < length (sd_I sd) \<and> k < length (sd_J sd) \<and> k < length (sd_dist sd) \<and>
         k < length (sd_ncomp sd) \<and> length c = 9 \<and>
         c ! 0 = sd_names sd ! (sd_I sd ! k) \<and> c ! 1 = sd_names sd ! (sd_J sd ! k) \<and>
         c ! 3 = str_int (py_int (sd_dist sd ! k)) \<and>
         c ! 7 = str_num (float_repr x) (sd_ncomp sd ! k) \<and> c ! 8 = msa_ref msa \<and>
         c ! 6 = (if recomb_filter a then str_num (float_repr x) (sd_filt sd ! k) else ''NA'') \<and>
         (recomb_filter a \<longrightarrow> k < length (sd_filt sd))"
        if "c \<in> set new" for c
      proof -
        from new(2) that obtain r where r: "r \<in> set ?rs" "?f r = Inr (Some c)" by blast
        obtain i j dateD snpD expK tranD filtD ncomp where
          rr: "r = (i, j, dateD, snpD, expK, tranD, filtD, ncomp)" by (cases r) auto
        from r(1) rr have "(i, j, dateD, snpD, expK, tranD, filtD, ncomp) \<in> set ?rs" by simp
        from in_zip8 [OF this] obtain k where
          k: "k < length (sd_I sd)" "k < length (sd_J sd)" "k < length (sd_dist sd)"
             "k < length ?filt" "k < length (sd_ncomp sd)"
             "i = sd_I sd ! k" "j = sd_J sd ! k" "snpD = sd_dist sd ! k" "filtD = ?filt ! k"
             "ncomp = sd_ncomp sd ! k"
          by blast
        from r(2) rr have c: "c = [sd_names sd ! i, sd_names sd ! j, str_num (float_repr x) dateD,
            str_int (py_int snpD), str_num (float_repr x) tranD, str_num (float_repr x) expK,
            py_str (float_repr x) filtD, str_num (float_repr x) ncomp, msa_ref msa]"
          by (auto dest: dated_fields_Some)
        have f: "py_str (float_repr x) filtD =
                   (if recomb_filter a then str_num (float_repr x) (sd_filt sd ! k) else ''NA'')"
          using k(3,4,9) by (simp split: if_splits)
        have "recomb_filter a \<longrightarrow> k < length (sd_filt sd)" using k(4) by (auto split: if_splits)
        with k c f show ?thesis by (intro exI [of _ k]) simp
      qed
      with new(1) Inr dated show ?thesis by auto
    qed
  next
    case undated: False
    let ?rs = "zip (sd_I sd) (zip (sd_J sd) (zip (sd_dist sd)
                 (zip (map Num (sd_filt sd)) (sd_ncomp sd))))"
    let ?f = "undated_fields (float_repr x) (sd_names sd) (msa_ref msa)"
    from run Inr undated have "write_rows ?f ?rs out = (out', err)"
      by (auto simp add: distance_msa_def)
    from write_rows_new [OF this] obtain new where
      new: "out' = out @ new" "\<forall>c \<in> set new. \<exists>r \<in> set ?rs. ?f r = Inr (Some c)" by blast
    have "\<exists>k. k < length (sd_I sd) \<and> k < length (sd_J sd) \<and> k < length (sd_dist sd) \<and>
         k < length (sd_ncomp sd) \<and> length c = 9 \<and>
         c ! 0 = sd_names sd ! (sd_I sd ! k) \<and> c ! 1 = sd_names sd ! (sd_J sd ! k) \<and>
         c ! 3 = str_int (py_int (sd_dist sd ! k)) \<and>
         c ! 7 = str_num (float_repr x) (sd_ncomp sd ! k) \<and> c ! 8 = msa_ref msa \<and>
         c ! 2 = ''NA'' \<and> c ! 4 = ''NA'' \<and> c ! 5 = ''NA'' \<and> k < length (sd_filt sd) \<and>
         c ! 6 = str_num (float_repr x) (sd_filt sd ! k)"
      if "c \<in> set new" for c
    proof -
      from new(2) that obtain r where r: "r \<in> set ?rs" "?f r = Inr (Some c)" by blast
      obtain i j snpD filtD ncomp where rr: "r = (i, j, snpD, filtD, ncomp)" by (cases r) auto
      from r(1) rr have "(i, j, snpD, filtD, ncomp) \<in> set ?rs" by simp
      from in_zip5 [OF this] obtain k where
        k: "k < length (sd_I sd)" "k < length (sd_J sd)" "k < length (sd_dist sd)"
           "k < length (map Num (sd_filt sd))" "k < length (sd_ncomp sd)"
           "i = sd_I sd ! k" "j = sd_J sd ! k" "snpD = sd_dist sd ! k"
           "filtD = map Num (sd_filt sd) ! k" "ncomp = sd_ncomp sd ! k"
        by blast
      from r(2) rr have c: "c = [sd_names sd ! i, sd_names sd ! j, ''NA'', str_int (py_int snpD),
          ''NA'', ''NA'', py_str (float_repr x) filtD, str_num (float_repr x) ncomp, msa_ref msa]"
        by (auto dest: undated_fields_Some)
      have f: "py_str (float_repr x) filtD = str_num (float_repr x) (sd_filt sd ! k)"
        using k(4,9) by simp
      from k(4) have "k < length (sd_filt sd)" by simp
      with k c f show ?thesis by (intro exI [of _ k]) simp
    qed
    with new(1) Inr undated show ?thesis by auto
  qed
qed


lemma ex_run_dated:
  "distance_msa ex_ext ex_args ex_dates ''/d/ref_combined.fasta'' [] =
     ([[''s1'', ''s2'', ''30'', ''2'', ''1'', ''1.5'', ''NA'', ''10'', ''ref'']], None)"
  by (simp add: distance_msa_def ex_ext_sel ex_args_def msas_def ex_pairsnp_def ex_trans_prob_def
      dated_fields_def py_index_def ex_str ex_ref ex_float_repr_def)

lemma ex_run_dated_K1:
  "distance_msa ex_ext (ex_args\<lparr>trans_threshold := Some 1\<rparr>) ex_dates ''/d/ref_combined.fasta'' [] =
     ([], None)"
  by (simp add: distance_msa_def ex_ext_sel ex_args_def msas_def ex_pairsnp_def ex_trans_prob_def
      dated_fields_def py_index_def ex_str ex_ref ex_float_repr_def)

lemma py_split_ne: "py_split sep s \<noteq> []"
  by (induction s) (auto split: list.splits)

lemma hd_py_split: "hd (py_split sep s) = takeWhile (\<lambda>c. c \<noteq> sep) s"
  by (induction s) (auto split: list.splits simp: py_split_ne)

lemma py_replace_subset: "set (py_replace old [] s) \<subseteq> set s"
proof (induction old "[] :: string" s rule: py_replace.induct)
  case (1 old)
  then show ?case by simp
next
  case (2 old c cs)
  show ?case
  proof (cases "old = []")
    case True
    with 2 show ?thesis by auto
  next
    case False
    show ?thesis
    proof (cases "take (length old) (c # cs) = old")
      case True
      have "set (py_replace old [] (drop (length old) (c # cs))) \<subseteq> set (drop (length old) (c # cs))"
        using 2(2) False True by simp
      also have "\<dots> \<subseteq> set (c # cs)" by (rule set_drop_subset)
      finally show ?thesis using False True by simp
    next
      case nomatch: False
      with 2(3) False show ?thesis by auto
    qed
  qed
qed

lemma basename_no_slash: "CHR ''/'' \<notin> set (basename p)"
  by (auto simp: basename_def dest: set_takeWhileD)

lemma msa_ref_stem:
  "msa_ref msa = py_replace ''_combined'' [] (takeWhile (\<lambda>ch. ch \<noteq> CHR ''.'') (basename msa))"
  by (simp add: msa_ref_def hd_py_split)

lemma msa_ref_chars: "CHR ''/'' \<notin> set (msa_ref msa)" "CHR ''.'' \<notin> set (msa_ref msa)"
proof -
  let ?stem = "takeWhile (\<lambda>ch. ch \<noteq> CHR ''.'') (basename msa)"
  have sub: "set (msa_ref msa) \<subseteq> set ?stem"
    unfolding msa_ref_stem by (rule py_replace_subset)
  have "CHR ''.'' \<notin> set ?stem" by (auto dest: set_takeWhileD)
  with sub show "CHR ''.'' \<notin> set (msa_ref msa)" by blast
  have "set ?stem \<subseteq> set (basename msa)" by (auto dest: set_takeWhileD)
  with basename_no_slash [of msa] have "CHR ''/'' \<notin> set ?stem" by blast
  with sub show "CHR ''/'' \<notin> set (msa_ref msa)" by blast
qed

lemma distance_loop_append:
  "distance_loop x a dates pre out = (out1, None) \<Longrightarrow>
   distance_loop x a dates (pre @ rest) out = distance_loop x a dates rest out1"
proof (induction pre arbitrary: out)
  case Nil
  then show ?case by simp
next
  case (Cons m pre)
  obtain o' r where step: "distance_msa x a dates m out = (o', r)"
    by (cases "distance_msa x a dates m out") auto
  show ?case
  proof (cases r)
    case None
    with step Cons.prems have "distance_loop x a dates pre o' = (out1, None)" by simp
    from Cons.IH [OF this] step None show ?thesis by simp
  next
    case (Some e)
    with step Cons.prems show ?thesis by simp
  qed
qed

lemma ex_run_bad:
  "distance_msa ex_ext ex_args dates ''/d/bad.fasta'' out =
     (out, Some (ExtensionError ''sequences differ in length''))"
  by (simp add: distance_msa_def ex_ext_sel ex_args_def msas_def ex_pairsnp_def)

lemma distance_msa_files:
  "distance_msa x (a\<lparr>msa_files := fs\<rparr>) dates msa out = distance_msa x a dates msa out"
  by (simp add: distance_msa_def msas_def Let_def cong: sum.case_cong if_cong)

lemma ex_row: "write_row [''s1'', ''s2'', ''30'', ''2'', ''1'', ''1.5'', ''NA'', ''10'', ''ref''] =
  ''s1,s2,30,2,1,1.5,NA,10,ref'' @ [CHR 0x0A]"
  by (simp add: write_row_def)

lemma ex_meta: "metadata ex_args = Some ''/d/meta.csv''" "msa_files ex_args = [''/d/ref_combined.fasta'']"
  by (simp_all add: ex_args_def)

lemma parse_bare:
  "parse_args chk_int chk_float abspath (bare_cli msa outp) =
     (if msa = [] then Inl (ArgumentError ''--msa'')
      else Inr \<lparr>msa_files = map abspath msa, msa_db = None, metadata = None, output_file = outp,
                snp_threshold = 2147483647, recomb_filter = False, clock_rate = 0.001 * 29903,
                trans_rate = 73, trans_threshold = None, precision = 0.01, n_cpu = 1,
                loglevel = ''INFO''\<rparr>)"
  by (simp add: parse_args_def bare_cli_def ebind_def opt_arg_def)









lemma all_pairs_mem: "(i, j) \<in> set (all_pairs n) \<longleftrightarrow> i < j \<and> j < n"
  by (force simp: all_pairs_def)

lemma spec_pairsnp_nth:
  assumes k: "k < length (sd_I (spec_pairsnp aln D))"
  shows "\<exists>i j. i < j \<and> j < length aln \<and>
           sd_I (spec_pairsnp aln D) ! k = i \<and> sd_J (spec_pairsnp aln D) ! k = j \<and>
           sd_names (spec_pairsnp aln D) ! i = fst (aln ! i) \<and>
           sd_names (spec_pairsnp aln D) ! j = fst (aln ! j) \<and>
           sd_dist (spec_pairsnp aln D) ! k =
             PInt (int (raw_distance (snd (aln ! i)) (snd (aln ! j)))) \<and>
           sd_filt (spec_pairsnp aln D) ! k =
             PInt (int (raw_distance (snd (aln ! i)) (snd (aln ! j)))) \<and>
           sd_ncomp (spec_pairsnp aln D) ! k =
             PInt (int (sites_considered (snd (aln ! i)) (snd (aln ! j))))"
proof -
  define ps where "ps = filter (\<lambda>(i, j). int (raw_distance (snd (aln ! i)) (snd (aln ! j))) \<le> D)
                 (all_pairs (length aln))"
  have sd: "spec_pairsnp aln D =
     \<lparr>sd_I = map fst ps, sd_J = map snd ps,
      sd_dist = map (\<lambda>(i, j). PInt (int (raw_distance (snd (aln ! i)) (snd (aln ! j))))) ps,
      sd_names = map fst aln,
      sd_filt = map (\<lambda>(i, j). PInt (int (raw_distance (snd (aln ! i)) (snd (aln ! j))))) ps,
      sd_ncomp = map (\<lambda>(i, j). PInt (int (sites_considered (snd (aln ! i)) (snd (aln ! j))))) ps\<rparr>"
    by (simp add: spec_pairsnp_def ps_def Let_def)
  from k have kl: "k < length ps" by (simp add: sd)
  obtain i j where ij: "ps ! k = (i, j)" by (cases "ps ! k") auto
  from kl have "ps ! k \<in> set ps" by simp
  then have "(i, j) \<in> set ps" by (simp add: ij)
  then have "(i, j) \<in> set (all_pairs (length aln))" unfolding ps_def by simp
  then have lt: "i < j" "j < length aln" by (simp_all add: all_pairs_mem)
  then have "i < length aln" by simp
  with lt kl ij show ?thesis by (simp add: sd)
qed

lemma ex_spec_engine:
  "spec_pairsnp ex_aln 2147483647 =
     \<lparr>sd_I = [0], sd_J = [1], sd_dist = [PInt 2], sd_names = [''s1'', ''s2''],
      sd_filt = [PInt 2], sd_ncomp = [PInt 10]\<rparr>"
  by (simp add: spec_pairsnp_def ex_aln_def all_pairs_def raw_distance_def sites_considered_def
      unresolved_positions_def resolved_def upt_rec Let_def)

lemma ex_run_undated:
  "distance_msa ex_ext (ex_args\<lparr>metadata := None\<rparr>) Map.empty ''/d/ref_combined.fasta'' [] =
     ([[''s1'', ''s2'', ''NA'', ''2'', ''NA'', ''NA'', ''2'', ''10'', ''ref'']], None)"
  by (simp add: distance_msa_def ex_ext_sel ex_args_def msas_def ex_pairsnp_def
      undated_fields_def py_index_def ex_str ex_ref)










section \<open>The records written\<close>




text \<open>
  C2. With the recombination filter off and the engine as the specification describes it,
  every record written names a pair of the alignment and carries that pair's raw SNP distance
  in the fourth field and, in the eighth, the alignment width less the positions unresolved
  in either sequence. The filtered SNP distance field equals the raw distance when no metadata
  file is given; when dates are used it is the literal \<open>NA\<close>, which line 204 puts into the
  column before the records are written.
\<close>

theorem unfiltered_record_fields:
  assumes off: "\<not> recomb_filter a"
    and eng: "pairsnp x (msas a msa) (n_cpu a) (snp_threshold a) False =
                Inr (spec_pairsnp aln (snp_threshold a))"
    and run: "distance_msa x a dates msa out = (out', err)"
  shows "\<exists>new. out' = out @ new \<and>
     (\<forall>c \<in> set new. \<exists>i j. i < j \<and> j < length aln \<and>
         c ! 0 = fst (aln ! i) \<and> c ! 1 = fst (aln ! j) \<and>
         c ! 3 = str_int (int (raw_distance (snd (aln ! i)) (snd (aln ! j)))) \<and>
         c ! 7 = str_int (int (length (snd (aln ! i)) -
                                unresolved_positions (snd (aln ! i)) (snd (aln ! j)))) \<and>
         c ! 6 = (if metadata a = None then c ! 3 else ''NA''))"
proof -
  let ?sd = "spec_pairsnp aln (snp_threshold a)"
  from distance_msa_new [OF run] obtain new where
    new: "out' = out @ new"
      "\<forall>c \<in> set new. \<exists>sd k.
         pairsnp x (msas a msa) (n_cpu a) (snp_threshold a) (recomb_filter a) = Inr sd \<and>
         k < length (sd_I sd) \<and> k < length (sd_J sd) \<and> k < length (sd_dist sd) \<and>
         k < length (sd_ncomp sd) \<and> length c = 9 \<and>
         c ! 0 = sd_names sd ! (sd_I sd ! k) \<and> c ! 1 = sd_names sd ! (sd_J sd ! k) \<and>
         c ! 3 = str_int (py_int (sd_dist sd ! k)) \<and>
         c ! 7 = str_num (float_repr x) (sd_ncomp sd ! k) \<and> c ! 8 = msa_ref msa \<and>
         (if metadata a \<noteq> None \<and> sd_I sd \<noteq> []
          then c ! 6 = (if recomb_filter a then str_num (float_repr x) (sd_filt sd ! k) else ''NA'') \<and>
               (recomb_filter a \<longrightarrow> k < length (sd_filt sd))
          else c ! 2 = ''NA'' \<and> c ! 4 = ''NA'' \<and> c ! 5 = ''NA'' \<and> k < length (sd_filt sd) \<and>
               c ! 6 = str_num (float_repr x) (sd_filt sd ! k))"
    by blast
  have "\<exists>i j. i < j \<and> j < length aln \<and>
         c ! 0 = fst (aln ! i) \<and> c ! 1 = fst (aln ! j) \<and>
         c ! 3 = str_int (int (raw_distance (snd (aln ! i)) (snd (aln ! j)))) \<and>
         c ! 7 = str_int (int (length (snd (aln ! i)) -
                                unresolved_positions (snd (aln ! i)) (snd (aln ! j)))) \<and>
         c ! 6 = (if metadata a = None then c ! 3 else ''NA'')"
    if "c \<in> set new" for c
  proof -
    from new(2) that obtain sd k where
      f: "pairsnp x (msas a msa) (n_cpu a) (snp_threshold a) (recomb_filter a) = Inr sd"
        "k < length (sd_I sd)"
        "c ! 0 = sd_names sd ! (sd_I sd ! k)" "c ! 1 = sd_names sd ! (sd_J sd ! k)"
        "c ! 3 = str_int (py_int (sd_dist sd ! k))"
        "c ! 7 = str_num (float_repr x) (sd_ncomp sd ! k)"
        "if metadata a \<noteq> None \<and> sd_I sd \<noteq> []
          then c ! 6 = (if recomb_filter a then str_num (float_repr x) (sd_filt sd ! k) else ''NA'') \<and>
               (recomb_filter a \<longrightarrow> k < length (sd_filt sd))
          else c ! 2 = ''NA'' \<and> c ! 4 = ''NA'' \<and> c ! 5 = ''NA'' \<and> k < length (sd_filt sd) \<and>
               c ! 6 = str_num (float_repr x) (sd_filt sd ! k)"
      by blast
    from f(1) off eng have sd: "sd = ?sd" by simp
    from f(2) have ne: "sd_I sd \<noteq> []" by auto
    from f(2) sd have "k < length (sd_I ?sd)" by simp
    from spec_pairsnp_nth [OF this] obtain i j where
      ij: "i < j" "j < length aln" "sd_I ?sd ! k = i" "sd_J ?sd ! k = j"
        "sd_names ?sd ! i = fst (aln ! i)" "sd_names ?sd ! j = fst (aln ! j)"
        "sd_dist ?sd ! k = PInt (int (raw_distance (snd (aln ! i)) (snd (aln ! j))))"
        "sd_filt ?sd ! k = PInt (int (raw_distance (snd (aln ! i)) (snd (aln ! j))))"
        "sd_ncomp ?sd ! k = PInt (int (sites_considered (snd (aln ! i)) (snd (aln ! j))))"
      by blast
    have c0: "c ! 0 = fst (aln ! i)" "c ! 1 = fst (aln ! j)"
      using f(3,4) ij(3-6) unfolding sd by simp_all
    have c3: "c ! 3 = str_int (int (raw_distance (snd (aln ! i)) (snd (aln ! j))))"
      using f(5) ij(7) unfolding sd by simp
    have c7: "c ! 7 = str_int (int (length (snd (aln ! i)) -
                                unresolved_positions (snd (aln ! i)) (snd (aln ! j))))"
      using f(6) ij(9) unfolding sd by (simp add: sites_considered_def)
    have c6: "c ! 6 = (if metadata a = None then c ! 3 else ''NA'')"
      using f(7) ne off ij(8) c3 unfolding sd by (auto split: if_splits)
    from ij(1,2) c0 c3 c7 c6 show ?thesis by blast
  qed
  with new(1) show ?thesis by blast
qed

theorem unfiltered_record_fields_witness:
  "distance_msa ex_ext ex_args ex_dates ''/d/ref_combined.fasta'' [] =
     ([[''s1'', ''s2'', ''30'', ''2'', ''1'', ''1.5'', ''NA'', ''10'', ''ref'']], None) \<and>
   [''s1'', ''s2'', ''30'', ''2'', ''1'', ''1.5'', ''NA'', ''10'', ''ref''] ! 3 =
     str_int (int (raw_distance ''ACGTACGTAC'' ''ACTTACGAAC'')) \<and>
   [''s1'', ''s2'', ''30'', ''2'', ''1'', ''1.5'', ''NA'', ''10'', ''ref''] ! 7 =
     str_int (int (length ''ACGTACGTAC'' - unresolved_positions ''ACGTACGTAC'' ''ACTTACGAAC'')) \<and>
   [''s1'', ''s2'', ''30'', ''2'', ''1'', ''1.5'', ''NA'', ''10'', ''ref''] ! 6 = ''NA'' \<and>
   distance_msa ex_ext (ex_args\<lparr>metadata := None\<rparr>) Map.empty ''/d/ref_combined.fasta'' [] =
     ([[''s1'', ''s2'', ''NA'', ''2'', ''NA'', ''NA'', ''2'', ''10'', ''ref'']], None) \<and>
   [''s1'', ''s2'', ''NA'', ''2'', ''NA'', ''NA'', ''2'', ''10'', ''ref''] ! 6 =
   [''s1'', ''s2'', ''NA'', ''2'', ''NA'', ''NA'', ''2'', ''10'', ''ref''] ! 3"
proof -
  let ?c = "[''s1'', ''s2'', ''30'', ''2'', ''1'', ''1.5'', ''NA'', ''10'', ''ref'']"
  let ?u = "[''s1'', ''s2'', ''NA'', ''2'', ''NA'', ''NA'', ''2'', ''10'', ''ref'']"
  let ?b = "ex_args\<lparr>metadata := None\<rparr>"
  have off: "\<not> recomb_filter ex_args" "\<not> recomb_filter ?b" by (simp_all add: ex_args_def)
  have eng: "pairsnp ex_ext (msas ex_args ''/d/ref_combined.fasta'') (n_cpu ex_args)
               (snp_threshold ex_args) False = Inr (spec_pairsnp ex_aln (snp_threshold ex_args))"
    "pairsnp ex_ext (msas ?b ''/d/ref_combined.fasta'') (n_cpu ?b)
               (snp_threshold ?b) False = Inr (spec_pairsnp ex_aln (snp_threshold ?b))"
    by (simp_all add: ex_ext_sel ex_args_def msas_def ex_pairsnp_def ex_spec_engine)
  have m: "metadata ex_args \<noteq> None" "metadata ?b = None" by (simp_all add: ex_args_def)
  have al: "length ex_aln = 2" "ex_aln ! 0 = (''s1'', ''ACGTACGTAC'')"
    "ex_aln ! 1 = (''s2'', ''ACTTACGAAC'')"
    by (simp_all add: ex_aln_def)
  from unfiltered_record_fields [OF off(1) eng(1) ex_run_dated] obtain new where
    new: "[?c] = [] @ new"
      "\<forall>c \<in> set new. \<exists>i j. i < j \<and> j < length ex_aln \<and>
         c ! 0 = fst (ex_aln ! i) \<and> c ! 1 = fst (ex_aln ! j) \<and>
         c ! 3 = str_int (int (raw_distance (snd (ex_aln ! i)) (snd (ex_aln ! j)))) \<and>
         c ! 7 = str_int (int (length (snd (ex_aln ! i)) -
                                unresolved_positions (snd (ex_aln ! i)) (snd (ex_aln ! j)))) \<and>
         c ! 6 = (if metadata ex_args = None then c ! 3 else ''NA'')"
    by blast
  from new(1) have "new = [?c]" by simp
  then have "?c \<in> set new" by simp
  with new(2) obtain i j where
    ij: "i < j" "j < length ex_aln"
      "?c ! 3 = str_int (int (raw_distance (snd (ex_aln ! i)) (snd (ex_aln ! j))))"
      "?c ! 7 = str_int (int (length (snd (ex_aln ! i)) -
                                unresolved_positions (snd (ex_aln ! i)) (snd (ex_aln ! j))))"
      "?c ! 6 = (if metadata ex_args = None then ?c ! 3 else ''NA'')"
    by blast
  from ij(1,2) al(1) have j: "j = 1" and i: "i = 0" by simp_all
  have d: "?c ! 3 = str_int (int (raw_distance ''ACGTACGTAC'' ''ACTTACGAAC''))"
    "?c ! 7 = str_int (int (length ''ACGTACGTAC'' -
                              unresolved_positions ''ACGTACGTAC'' ''ACTTACGAAC''))"
    using ij(3,4) by (simp_all only: i j al snd_conv)
  from ij(5) m(1) have d6: "?c ! 6 = ''NA''" by simp
  from unfiltered_record_fields [OF off(2) eng(2) ex_run_undated] obtain new' where
    new': "[?u] = [] @ new'"
      "\<forall>c \<in> set new'. \<exists>i j. i < j \<and> j < length ex_aln \<and>
         c ! 0 = fst (ex_aln ! i) \<and> c ! 1 = fst (ex_aln ! j) \<and>
         c ! 3 = str_int (int (raw_distance (snd (ex_aln ! i)) (snd (ex_aln ! j)))) \<and>
         c ! 7 = str_int (int (length (snd (ex_aln ! i)) -
                                unresolved_positions (snd (ex_aln ! i)) (snd (ex_aln ! j)))) \<and>
         c ! 6 = (if metadata ?b = None then c ! 3 else ''NA'')"
    by blast
  from new'(1) have "new' = [?u]" by simp
  then have "?u \<in> set new'" by simp
  with new'(2) m(2) have u: "?u ! 6 = ?u ! 3" by auto
  from ex_run_dated ex_run_undated d d6 u show ?thesis by blast
qed

text \<open>
  The dated run of the example with the filter off: the seventh field of the record is
  \<open>NA\<close>, not the raw distance \<open>2\<close> of the fourth field.
\<close>

theorem unfiltered_filtered_field_not_raw:
  "\<not> recomb_filter ex_args \<and>
   distance_msa ex_ext ex_args ex_dates ''/d/ref_combined.fasta'' [] =
     ([[''s1'', ''s2'', ''30'', ''2'', ''1'', ''1.5'', ''NA'', ''10'', ''ref'']], None) \<and>
   [''s1'', ''s2'', ''30'', ''2'', ''1'', ''1.5'', ''NA'', ''10'', ''ref''] ! 6 \<noteq>
   [''s1'', ''s2'', ''30'', ''2'', ''1'', ''1.5'', ''NA'', ''10'', ''ref''] ! 3"
  by (simp add: ex_run_dated) (simp add: ex_args_def)

text \<open>
  C9. The last field of every record written for an alignment is not the path given: it is
  the base name of the path, cut at its first dot, with the occurrences of \<open>_combined\<close>
  taken out by \<^verbatim>\<open>str.replace\<close>. It holds neither a slash nor a dot, and it is the same for
  all the pairs of the alignment. (The text \<^verbatim>\<open>replace\<close> produces is not scanned again:
  \<open>a_com_combinedbined\<close> gives \<open>a_combined\<close>.)
\<close>

theorem msa_file_field:
  assumes run: "distance_msa x a dates msa out = (out', err)"
  shows "\<exists>new. out' = out @ new \<and>
     (\<forall>c \<in> set new. length c = 9 \<and>
        c ! 8 = py_replace ''_combined'' [] (takeWhile (\<lambda>ch. ch \<noteq> CHR ''.'') (basename msa)) \<and>
        CHR ''/'' \<notin> set (c ! 8) \<and> CHR ''.'' \<notin> set (c ! 8))"
proof -
  from distance_msa_new [OF run] obtain new where
    new: "out' = out @ new" "\<forall>c \<in> set new. length c = 9 \<and> c ! 8 = msa_ref msa"
    by blast
  have "length c = 9 \<and>
        c ! 8 = py_replace ''_combined'' [] (takeWhile (\<lambda>ch. ch \<noteq> CHR ''.'') (basename msa)) \<and>
        CHR ''/'' \<notin> set (c ! 8) \<and> CHR ''.'' \<notin> set (c ! 8)"
    if "c \<in> set new" for c
  proof -
    from new(2) that have c: "length c = 9" "c ! 8 = msa_ref msa" by auto
    show ?thesis unfolding c using msa_ref_stem [of msa] msa_ref_chars [of msa] by simp
  qed
  with new(1) show ?thesis by blast
qed

theorem msa_file_field_witness:
  "distance_msa ex_ext ex_args ex_dates ''/d/ref_combined.fasta'' [] =
     ([[''s1'', ''s2'', ''30'', ''2'', ''1'', ''1.5'', ''NA'', ''10'', ''ref'']], None) \<and>
   [''s1'', ''s2'', ''30'', ''2'', ''1'', ''1.5'', ''NA'', ''10'', ''ref''] ! 8 =
     py_replace ''_combined'' [] (takeWhile (\<lambda>ch. ch \<noteq> CHR ''.'') (basename ''/d/ref_combined.fasta'')) \<and>
   py_replace ''_combined'' [] (takeWhile (\<lambda>ch. ch \<noteq> CHR ''.'') (basename ''/d/ref_combined.fasta'')) =
     ''ref'' \<and>
   msa_ref ''/d/a_com_combinedbined.fasta.gz'' = ''a_combined''"
proof -
  let ?c = "[''s1'', ''s2'', ''30'', ''2'', ''1'', ''1.5'', ''NA'', ''10'', ''ref'']"
  from msa_file_field [OF ex_run_dated] obtain new where
    new: "[?c] = [] @ new"
      "\<forall>c \<in> set new. length c = 9 \<and>
        c ! 8 = py_replace ''_combined'' []
                  (takeWhile (\<lambda>ch. ch \<noteq> CHR ''.'') (basename ''/d/ref_combined.fasta'')) \<and>
        CHR ''/'' \<notin> set (c ! 8) \<and> CHR ''.'' \<notin> set (c ! 8)"
    by blast
  from new(1) have "new = [?c]" by simp
  then have "?c \<in> set new" by simp
  with new(2) have 1: "?c ! 8 = py_replace ''_combined'' []
                  (takeWhile (\<lambda>ch. ch \<noteq> CHR ''.'') (basename ''/d/ref_combined.fasta''))"
    by blast
  have 2: "py_replace ''_combined'' []
         (takeWhile (\<lambda>ch. ch \<noteq> CHR ''.'') (basename ''/d/ref_combined.fasta'')) = ''ref''"
    by (simp add: basename_def)
  have 3: "msa_ref ''/d/a_com_combinedbined.fasta.gz'' = ''a_combined''"
    by (simp add: msa_ref_def basename_def)
  from ex_run_dated 1 2 3 show ?thesis by blast
qed

text \<open>
  C10. With dates and at least one pair, the transmission model is given the filtered
  distances when the recombination filter is on and the raw distances when it is off, and
  the date difference, the transmission distance and the expected K of every record written
  are its answers to that input. The SNP distance field stays the raw distance in both cases.
\<close>

theorem estimate_from_filtered_distance:
  assumes eng: "pairsnp x (msas a msa) (n_cpu a) (snp_threshold a) (recomb_filter a) = Inr sd"
    and cols: "pair_columns sd"
    and meta: "metadata a \<noteq> None"
    and pairs: "sd_I sd \<noteq> []"
    and est: "calculate_trans_prob x
                (sd_I sd, sd_J sd, if recomb_filter a then sd_filt sd else sd_dist sd)
                dates 100 (clock_rate a) (trans_rate a) (sd_names sd) False (precision a) =
              Inr (t, ek, dd)"
    and lens: "length t = length (sd_I sd)" "length ek = length (sd_I sd)"
      "length dd = length (sd_I sd)"
  shows "distance_msa x a dates msa out =
     (out @ map (\<lambda>k. [sd_names sd ! (sd_I sd ! k), sd_names sd ! (sd_J sd ! k),
                       str_num (float_repr x) (dd ! k), str_int (py_int (sd_dist sd ! k)),
                       str_num (float_repr x) (t ! k), str_num (float_repr x) (ek ! k),
                       (if recomb_filter a then str_num (float_repr x) (sd_filt sd ! k) else ''NA''),
                       str_num (float_repr x) (sd_ncomp sd ! k), msa_ref msa])
             (filter (\<lambda>k. case trans_threshold a of None \<Rightarrow> True
                            | Some K \<Rightarrow> int_ge_num K (ek ! k))
                [0..<length (sd_I sd)]),
      None)"
proof -
  let ?n = "length (sd_I sd)"
  let ?filt = "if recomb_filter a then map Num (sd_filt sd)
               else replicate (length (sd_dist sd)) (Str ''NA'')"
  have len: "length (sd_dist sd) = ?n" "length (sd_filt sd) = ?n"
    using cols by (simp_all add: pair_columns_def)
  then have lf: "length ?filt = ?n" by simp
  have cell: "py_str (float_repr x) (?filt ! k) =
                (if recomb_filter a then str_num (float_repr x) (sd_filt sd ! k) else ''NA'')"
    if "k < ?n" for k
    using that len by simp
  have "distance_msa x a dates msa out =
          write_rows (dated_fields (float_repr x) (trans_threshold a) (sd_names sd) (msa_ref msa))
            (zip (sd_I sd) (zip (sd_J sd) (zip dd (zip (sd_dist sd)
               (zip ek (zip t (zip ?filt (sd_ncomp sd)))))))) out"
    using eng meta pairs est by (simp add: distance_msa_def)
  also have "\<dots> =
     (out @ map (\<lambda>k. [sd_names sd ! (sd_I sd ! k), sd_names sd ! (sd_J sd ! k),
                       str_num (float_repr x) (dd ! k), str_int (py_int (sd_dist sd ! k)),
                       str_num (float_repr x) (t ! k), str_num (float_repr x) (ek ! k),
                       py_str (float_repr x) (?filt ! k),
                       str_num (float_repr x) (sd_ncomp sd ! k), msa_ref msa])
             (filter (\<lambda>k. case trans_threshold a of None \<Rightarrow> True
                            | Some K \<Rightarrow> int_ge_num K (ek ! k))
                [0..<?n]),
      None)"
    using cols lens(3) lens(2) lens(1) lf by (rule dated_write)
  also have "map (\<lambda>k. [sd_names sd ! (sd_I sd ! k), sd_names sd ! (sd_J sd ! k),
                       str_num (float_repr x) (dd ! k), str_int (py_int (sd_dist sd ! k)),
                       str_num (float_repr x) (t ! k), str_num (float_repr x) (ek ! k),
                       py_str (float_repr x) (?filt ! k),
                       str_num (float_repr x) (sd_ncomp sd ! k), msa_ref msa])
             (filter (\<lambda>k. case trans_threshold a of None \<Rightarrow> True
                            | Some K \<Rightarrow> int_ge_num K (ek ! k))
                [0..<?n]) =
         map (\<lambda>k. [sd_names sd ! (sd_I sd ! k), sd_names sd ! (sd_J sd ! k),
                       str_num (float_repr x) (dd ! k), str_int (py_int (sd_dist sd ! k)),
                       str_num (float_repr x) (t ! k), str_num (float_repr x) (ek ! k),
                       (if recomb_filter a then str_num (float_repr x) (sd_filt sd ! k) else ''NA''),
                       str_num (float_repr x) (sd_ncomp sd ! k), msa_ref msa])
             (filter (\<lambda>k. case trans_threshold a of None \<Rightarrow> True
                            | Some K \<Rightarrow> int_ge_num K (ek ! k))
                [0..<?n])"
    by (rule map_cong) (simp_all add: cell)
  finally show ?thesis .
qed

theorem estimate_from_filtered_distance_witness:
  "distance_msa ex_ext (ex_args\<lparr>recomb_filter := True\<rparr>) ex_dates ''/d/ref_combined.fasta'' [] =
     ([[''s1'', ''s2'', ''30'', ''2'', ''0'', ''0.0'', ''0'', ''8'', ''ref'']], None)"
proof -
  let ?a = "ex_args\<lparr>recomb_filter := True\<rparr>"
  let ?sd = "\<lparr>sd_I = [0], sd_J = [1], sd_dist = [PInt 2], sd_names = [''s1'', ''s2''],
               sd_filt = [PInt 0], sd_ncomp = [PInt 8]\<rparr>"
  have eng: "pairsnp ex_ext (msas ?a ''/d/ref_combined.fasta'') (n_cpu ?a) (snp_threshold ?a)
               (recomb_filter ?a) = Inr ?sd"
    by (simp add: ex_ext_sel ex_args_def msas_def ex_pairsnp_def)
  have cols: "pair_columns ?sd" by (simp add: pair_columns_def)
  have meta: "metadata ?a \<noteq> None" by (simp add: ex_args_def)
  have pairs: "sd_I ?sd \<noteq> []" by simp
  have est: "calculate_trans_prob ex_ext
               (sd_I ?sd, sd_J ?sd, if recomb_filter ?a then sd_filt ?sd else sd_dist ?sd)
               ex_dates 100 (clock_rate ?a) (trans_rate ?a) (sd_names ?sd) False (precision ?a) =
             Inr ([PInt 0], [PFloat 0], [PInt 30])"
    by (simp add: ex_ext_sel ex_trans_prob_def)
  show ?thesis
    using estimate_from_filtered_distance [OF eng cols meta pairs est, of "[]"]
    by (simp add: ex_ext_sel ex_str ex_ref ex_float_repr_def ex_args_def)
qed


section \<open>The threshold on the number of transmissions\<close>

text \<open>
  C1. The test at line 222 is \<^verbatim>\<open>args.trans_threshold >= expK\<close>: it reads the expected K.
  In the example the model reports, for the one pair, the transmission distance \<open>1\<close> and the
  expected K \<open>1.5\<close>. With \<^verbatim>\<open>-K 1\<close> the pair is not written, and the output holds the header
  alone; without \<^verbatim>\<open>-K\<close> the record is written.
\<close>

theorem threshold_compares_expected_K:
  "distance ex_ext (ex_args\<lparr>trans_threshold := Some 1\<rparr>) =
     \<lparr>outfile = Some [header], raised = None\<rparr> \<and>
   distance ex_ext ex_args =
     \<lparr>outfile = Some [header, ''s1,s2,30,2,1,1.5,NA,10,ref'' @ [CHR 0x0A]], raised = None\<rparr>"
  by (simp add: distance_def ex_meta ex_load_dates ex_run_dated ex_run_dated_K1 ex_row)

text \<open>
  C8. The threshold K is read in the dated branch only. Without a metadata file, or for an
  alignment with no pair, the records written are the same whatever K is: one for every pair
  the engine returned. In the dated run of the example the same pair is written without K
  and left out with K = 1.
\<close>

theorem threshold_unused_without_dates:
  assumes eng: "pairsnp x (msas a msa) (n_cpu a) (snp_threshold a) (recomb_filter a) = Inr sd"
    and cols: "pair_columns sd"
    and nodates: "metadata a = None \<or> sd_I sd = []"
  shows "distance_msa x (a\<lparr>trans_threshold := K\<rparr>) dates msa out =
     (out @ map (\<lambda>k. [sd_names sd ! (sd_I sd ! k), sd_names sd ! (sd_J sd ! k), ''NA'',
                       str_int (py_int (sd_dist sd ! k)), ''NA'', ''NA'',
                       str_num (float_repr x) (sd_filt sd ! k),
                       str_num (float_repr x) (sd_ncomp sd ! k), msa_ref msa])
                [0..<length (sd_I sd)],
      None) \<and>
    distance_msa ex_ext ex_args ex_dates ''/d/ref_combined.fasta'' [] =
      ([[''s1'', ''s2'', ''30'', ''2'', ''1'', ''1.5'', ''NA'', ''10'', ''ref'']], None) \<and>
    distance_msa ex_ext (ex_args\<lparr>trans_threshold := Some 1\<rparr>) ex_dates
      ''/d/ref_combined.fasta'' [] = ([], None)"
proof -
  have "distance_msa x (a\<lparr>trans_threshold := K\<rparr>) dates msa out =
          write_rows (undated_fields (float_repr x) (sd_names sd) (msa_ref msa))
            (zip (sd_I sd) (zip (sd_J sd) (zip (sd_dist sd)
               (zip (map Num (sd_filt sd)) (sd_ncomp sd))))) out"
    using eng nodates by (auto simp add: distance_msa_def msas_def)
  also note undated_write [OF cols]
  finally show ?thesis using ex_run_dated ex_run_dated_K1 by simp
qed

theorem threshold_unused_without_dates_witness:
  "distance_msa ex_ext (ex_args\<lparr>metadata := None, trans_threshold := Some 1\<rparr>) Map.empty
     ''/d/ref_combined.fasta'' [] =
     ([[''s1'', ''s2'', ''NA'', ''2'', ''NA'', ''NA'', ''2'', ''10'', ''ref'']], None) \<and>
   distance_msa ex_ext (ex_args\<lparr>trans_threshold := Some 1\<rparr>) ex_dates ''/d/ref_combined.fasta'' [] =
     ([], None)"
proof -
  let ?a = "ex_args\<lparr>metadata := None\<rparr>"
  let ?sd = "\<lparr>sd_I = [0], sd_J = [1], sd_dist = [PInt 2], sd_names = [''s1'', ''s2''],
               sd_filt = [PInt 2], sd_ncomp = [PInt 10]\<rparr>"
  have eng: "pairsnp ex_ext (msas ?a ''/d/ref_combined.fasta'') (n_cpu ?a) (snp_threshold ?a)
               (recomb_filter ?a) = Inr ?sd"
    by (simp add: ex_ext_sel ex_args_def msas_def ex_pairsnp_def)
  have cols: "pair_columns ?sd" by (simp add: pair_columns_def)
  have nodates: "metadata ?a = None \<or> sd_I ?sd = []" by simp
  have "distance_msa ex_ext (?a\<lparr>trans_threshold := Some 1\<rparr>) Map.empty ''/d/ref_combined.fasta'' [] =
     ([[''s1'', ''s2'', ''NA'', ''2'', ''NA'', ''NA'', ''2'', ''10'', ''ref'']], None)"
    using threshold_unused_without_dates [OF eng cols nodates, of "Some 1" Map.empty "[]"]
    by (simp add: ex_ext_sel ex_str ex_ref)
  with ex_run_dated_K1 show ?thesis by simp
qed

section \<open>An alignment that cannot be processed\<close>

text \<open>
  C3. The loop over the alignments has no handler: the first alignment whose processing raises
  ends the call. The exception reaches the caller once, the output file holds the header and
  the records written up to that point, and the alignments that follow are not processed.
\<close>

theorem first_failure_ends_run:
  assumes dates: "load_dates x (metadata a) = Inr dates"
    and files: "msa_files a = pre @ msa # post"
    and pre: "distance_loop x a dates pre [] = (out1, None)"
    and fail: "distance_msa x a dates msa out1 = (out2, Some e)"
  shows "distance x a = \<lparr>outfile = Some (header # map write_row out2), raised = Some e\<rparr>"
proof -
  have "distance_loop x a dates (pre @ msa # post) [] = distance_loop x a dates (msa # post) out1"
    using pre by (rule distance_loop_append)
  also have "\<dots> = (out2, Some e)" using fail by simp
  finally show ?thesis using dates files by (simp add: distance_def)
qed

theorem first_failure_ends_run_witness:
  "distance ex_ext
     (ex_args\<lparr>msa_files := [''/d/ref_combined.fasta'', ''/d/bad.fasta'', ''/d/ref_combined.fasta'']\<rparr>) =
   \<lparr>outfile = Some [header, ''s1,s2,30,2,1,1.5,NA,10,ref'' @ [CHR 0x0A]],
    raised = Some (ExtensionError ''sequences differ in length'')\<rparr>"
proof -
  let ?a = "ex_args\<lparr>msa_files := [''/d/ref_combined.fasta'', ''/d/bad.fasta'', ''/d/ref_combined.fasta'']\<rparr>"
  let ?c = "[''s1'', ''s2'', ''30'', ''2'', ''1'', ''1.5'', ''NA'', ''10'', ''ref'']"
  have dates: "load_dates ex_ext (metadata ?a) = Inr ex_dates"
    by (simp add: ex_meta ex_load_dates)
  have files: "msa_files ?a = [''/d/ref_combined.fasta''] @ ''/d/bad.fasta'' # [''/d/ref_combined.fasta'']"
    by simp
  have pre: "distance_loop ex_ext ?a ex_dates [''/d/ref_combined.fasta''] [] = ([?c], None)"
    by (simp add: distance_msa_files ex_run_dated)
  have fail: "distance_msa ex_ext ?a ex_dates ''/d/bad.fasta'' [?c] =
                ([?c], Some (ExtensionError ''sequences differ in length''))"
    by (simp add: distance_msa_files ex_run_bad)
  show ?thesis
    using first_failure_ends_run [OF dates files pre fail] by (simp add: ex_row)
qed

text \<open>
  A run given the refused file first and the good alignment second: only the header is
  written, although the good alignment alone gives a record.
\<close>

theorem failing_alignment_ends_run:
  "distance ex_ext (ex_args\<lparr>msa_files := [''/d/bad.fasta'', ''/d/ref_combined.fasta'']\<rparr>) =
     \<lparr>outfile = Some [header], raised = Some (ExtensionError ''sequences differ in length'')\<rparr> \<and>
   distance ex_ext (ex_args\<lparr>msa_files := [''/d/ref_combined.fasta'']\<rparr>) =
     \<lparr>outfile = Some [header, ''s1,s2,30,2,1,1.5,NA,10,ref'' @ [CHR 0x0A]], raised = None\<rparr>"
  by (simp add: distance_def ex_meta ex_load_dates distance_msa_files ex_run_bad ex_run_dated ex_row)

section \<open>The header and the command line\<close>





text \<open>
  C7. A command line that gives only the required \<^verbatim>\<open>--msa\<close> and \<^verbatim>\<open>--output\<close> is parsed to
  the defaults, whatever the argument checkers do: the SNP threshold \<open>2^31 - 1\<close>, the clock
  rate \<open>1e-3 * 29903\<close>, the transmission rate \<open>73\<close>, no threshold K, the precision \<open>0.01\<close>,
  the filter off and one thread.
\<close>

theorem parser_defaults:
  "msa \<noteq> [] \<Longrightarrow>
   parse_args chk_int chk_float abspath (bare_cli msa outp) =
     Inr \<lparr>msa_files = map abspath msa, msa_db = None, metadata = None, output_file = outp,
          snp_threshold = 2 ^ 31 - 1, recomb_filter = False, clock_rate = 1 / 1000 * 29903,
          trans_rate = 73, trans_threshold = None, precision = 1 / 100, n_cpu = 1,
          loglevel = ''INFO''\<rparr>"
  by (simp add: parse_bare)

theorem parser_defaults_witness:
  "[''/d/ref_combined.fasta''] \<noteq> ([] :: string list) \<and>
   parse_args check_positive_int check_positive_float id
       (bare_cli [''/d/ref_combined.fasta''] ''out.csv'') =
     Inr \<lparr>msa_files = [''/d/ref_combined.fasta''], msa_db = None, metadata = None,
          output_file = ''out.csv'', snp_threshold = 2147483647, recomb_filter = False,
          clock_rate = 29903 / 1000, trans_rate = 73, trans_threshold = None,
          precision = 1 / 100, n_cpu = 1, loglevel = ''INFO''\<rparr>"
  using parser_defaults [of "[''/d/ref_combined.fasta'']" check_positive_int check_positive_float
      id "''out.csv''"]
  by simp

end
